theory Spec2Isabelle
  imports Complex_Main
begin

section \<open>Experiment Terminator: values, errors and the random generator\<close>

text \<open>
  The development embeds \<^verbatim>\<open>src/experiment_terminator.py\<close> (class
  \<^verbatim>\<open>ExperimentTerminator\<close>) and the decision rule of \<^verbatim>\<open>src/app.py\<close>.

  Idealisation of numbers: a finite double is a real number and arithmetic on finite
  doubles is exact; the three special doubles are kept as values of their own, because
  numpy produces them (division by a zero draw, the mean of an empty array) where
  HOL's total division would silently give 0. Python integers are \<open>int\<close>.
\<close>

datatype error = ValueError | ZeroDivisionError | IndexError

datatype float64 = Finite real | PosInf | NegInf | NaN

text \<open>Comparison of doubles: every comparison with NaN is false.\<close>

fun f_less :: "float64 \<Rightarrow> float64 \<Rightarrow> bool" where
  "f_less (Finite x) (Finite y) = (x < y)"
| "f_less (Finite x) PosInf = True"
| "f_less NegInf (Finite y) = True"
| "f_less NegInf PosInf = True"
| "f_less _ _ = False"

definition f_ge :: "float64 \<Rightarrow> float64 \<Rightarrow> bool" where
  "f_ge a b = (a \<noteq> NaN \<and> b \<noteq> NaN \<and> \<not> f_less a b)"

text \<open>Addition of doubles: NaN absorbs, opposite infinities give NaN.\<close>

fun f_add :: "float64 \<Rightarrow> float64 \<Rightarrow> float64" where
  "f_add NaN _ = NaN"
| "f_add _ NaN = NaN"
| "f_add (Finite x) (Finite y) = Finite (x + y)"
| "f_add PosInf NegInf = NaN"
| "f_add NegInf PosInf = NaN"
| "f_add PosInf _ = PosInf"
| "f_add _ PosInf = PosInf"
| "f_add NegInf _ = NegInf"
| "f_add _ NegInf = NegInf"

text \<open>
  numpy's elementwise \<^verbatim>\<open>/\<close> on two finite doubles: a zero divisor raises nothing
  (a RuntimeWarning at most) and yields an infinity or NaN.
\<close>

definition np_divide :: "real \<Rightarrow> real \<Rightarrow> float64" where
  "np_divide x y =
     (if y \<noteq> 0 then Finite (x / y)
      else if 0 < x then PosInf
      else if x < 0 then NegInf
      else NaN)"

text \<open>A double divided by a positive element count.\<close>

fun f_div_count :: "float64 \<Rightarrow> nat \<Rightarrow> float64" where
  "f_div_count (Finite x) n = Finite (x / real n)"
| "f_div_count v n = v"

text \<open>\<^verbatim>\<open>np.mean\<close>: the sum over the element count; NaN for an empty array.\<close>

definition np_mean :: "float64 list \<Rightarrow> float64" where
  "np_mean xs =
     (if xs = [] then NaN else f_div_count (foldl f_add (Finite 0) xs) (length xs))"

text \<open>Python's \<^verbatim>\<open>/\<close> on two integers.\<close>

definition py_truediv :: "int \<Rightarrow> int \<Rightarrow> error + real" where
  "py_truediv a b =
     (if b = 0 then Inl ZeroDivisionError else Inr (real_of_int a / real_of_int b))"

text \<open>
  \<^verbatim>\<open>np.quantile\<close> with the default method (linear interpolation): on the sorted
  data of length \<open>n\<close> the virtual index is \<open>(n - 1) * q\<close>, the result interpolates
  between the elements below and above it, the upper index clipped to \<open>n - 1\<close>.
\<close>

definition quantile_linear :: "real list \<Rightarrow> real \<Rightarrow> real" where
  "quantile_linear xs q =
     (let s = sort xs;
          n = length xs;
          h = real (n - 1) * q;
          j = nat \<lfloor>h\<rfloor>;
          g = h - real j
      in s ! j + (s ! min (j + 1) (n - 1) - s ! j) * g)"

text \<open>
  A probability outside \<open>[0, 1]\<close> is a ValueError. The empty array never reaches
  \<^verbatim>\<open>np.quantile\<close> from this program and is modelled as an IndexError.
\<close>

definition np_quantile :: "real list \<Rightarrow> real list \<Rightarrow> error + real list" where
  "np_quantile xs qs =
     (if \<exists>q \<in> set qs. q < 0 \<or> 1 < q then Inl ValueError
      else if xs = [] then Inl IndexError
      else Inr (map (quantile_linear xs) qs))"

text \<open>\<^verbatim>\<open>np.zeros\<close>: a negative length is a ValueError.\<close>

definition np_zeros :: "int \<Rightarrow> error + real list" where
  "np_zeros n = (if n < 0 then Inl ValueError else Inr (replicate (nat n) 0))"

subsection \<open>The process-wide generator \<^verbatim>\<open>np.random\<close>\<close>

text \<open>
  The sampling algorithms of numpy are not part of the program. The generator is a
  record of the variates it will hand out: the variate at position \<open>i\<close> of the
  \<open>k\<close>-th sampling call, for the parameters of that call. \<open>served\<close> is the list of
  the calls answered so far, so the next call is number \<open>length served\<close>.
\<close>

datatype request =
    BetaRequest int int int
  | BinomialRequest int "real list" int

fun request_size :: "request \<Rightarrow> int" where
  "request_size (BetaRequest a b n) = n"
| "request_size (BinomialRequest m p n) = n"

record np_random =
  beta_variate :: "nat \<Rightarrow> int \<Rightarrow> int \<Rightarrow> nat \<Rightarrow> real"
  binomial_variate :: "nat \<Rightarrow> int \<Rightarrow> real \<Rightarrow> nat \<Rightarrow> int"
  served :: "request list"

text \<open>
  What numpy promises of its variates: a Beta variate with positive shapes lies in
  \<open>[0, 1]\<close>, a Binomial variate of \<open>n \<ge> 0\<close> trials lies in \<open>{0..n}\<close>.
\<close>

definition np_random_ok :: "np_random \<Rightarrow> bool" where
  "np_random_ok g =
     ((\<forall>k a b i. 0 < a \<and> 0 < b \<longrightarrow> 0 \<le> beta_variate g k a b i \<and> beta_variate g k a b i \<le> 1) \<and>
      (\<forall>k n p i. 0 \<le> n \<longrightarrow> 0 \<le> binomial_variate g k n p i \<and> binomial_variate g k n p i \<le> n))"

subsection \<open>The object, the world and actions\<close>

record ExperimentTerminator =
  mc_samples :: int
  alpha :: real

definition init :: ExperimentTerminator where
  "init = \<lparr>mc_samples = 5000, alpha = 0.05\<rparr>"

record world =
  self :: ExperimentTerminator
  rng :: np_random

text \<open>
  A method is an action on the world: it returns a value or raises, and in both cases
  leaves a world behind.
\<close>

type_synonym 'a action = "world \<Rightarrow> (error + 'a) \<times> world"

definition returns :: "'a \<Rightarrow> 'a action" where
  "returns x w = (Inr x, w)"

definition lift_result :: "error + 'a \<Rightarrow> 'a action" where
  "lift_result r w = (r, w)"

definition andthen :: "'a action \<Rightarrow> ('a \<Rightarrow> 'b action) \<Rightarrow> 'b action" where
  "andthen m f w =
     (case m w of
        (Inl e, w') \<Rightarrow> (Inl e, w')
      | (Inr x, w') \<Rightarrow> f x w')"

definition get_mc_samples :: "int action" where
  "get_mc_samples w = (Inr (mc_samples (self w)), w)"

definition get_alpha :: "real action" where
  "get_alpha w = (Inr (alpha (self w)), w)"

text \<open>\<^verbatim>\<open>for i in indices: state = body(i, state)\<close>, stopping at the first raise.\<close>

fun for_loop :: "'i list \<Rightarrow> ('i \<Rightarrow> 's \<Rightarrow> 's action) \<Rightarrow> 's \<Rightarrow> 's action" where
  "for_loop [] body s = returns s"
| "for_loop (i # rest) body s = andthen (body i s) (for_loop rest body)"

definition serve :: "request list \<Rightarrow> world \<Rightarrow> world" where
  "serve rs w = w\<lparr>rng := (rng w)\<lparr>served := served (rng w) @ rs\<rparr>\<rparr>"

text \<open>
  \<^verbatim>\<open>np.random.beta(a, b, size)\<close>: a shape that is not positive, or a negative
  size, is a ValueError; otherwise \<open>size\<close> variates.
\<close>

definition np_random_beta :: "int \<Rightarrow> int \<Rightarrow> int \<Rightarrow> real list action" where
  "np_random_beta a b sz w =
     (if a \<le> 0 \<or> b \<le> 0 \<or> sz < 0 then (Inl ValueError, w)
      else (Inr (map (beta_variate (rng w) (length (served (rng w))) a b) [0..<nat sz]),
            serve [BetaRequest a b sz] w))"

text \<open>
  \<^verbatim>\<open>np.random.binomial(n, p, size)\<close> with an integer \<open>n\<close> and an array \<open>p\<close>:
  \<open>n < 0\<close>, a probability outside \<open>[0, 1]\<close>, a negative size and an array that does
  not broadcast to \<open>size\<close> are ValueErrors; an array of one element broadcasts.
\<close>

definition np_random_binomial :: "int \<Rightarrow> real list \<Rightarrow> int \<Rightarrow> int list action" where
  "np_random_binomial n p sz w =
     (if n < 0 \<or> sz < 0 \<or> (\<exists>x \<in> set p. x < 0 \<or> 1 < x)
         \<or> (length p \<noteq> nat sz \<and> length p \<noteq> 1)
      then (Inl ValueError, w)
      else (Inr (map (\<lambda>i. binomial_variate (rng w) (length (served (rng w))) n
                         (if length p = 1 then p ! 0 else p ! i) i) [0..<nat sz]),
            serve [BinomialRequest n p sz] w))"

section \<open>The class \<^verbatim>\<open>ExperimentTerminator\<close>\<close>

definition get_posterior_samples :: "int \<Rightarrow> int \<Rightarrow> int \<Rightarrow> int \<Rightarrow> real list list action" where
  "get_posterior_samples completed_trials_a completed_trials_b successes_a successes_b =
     andthen get_mc_samples (\<lambda>n_a.
     andthen (np_random_beta successes_a (completed_trials_a - successes_a) n_a)
       (\<lambda>posterior_samples_a.
     andthen get_mc_samples (\<lambda>n_b.
     andthen (np_random_beta successes_b (completed_trials_b - successes_b) n_b)
       (\<lambda>posterior_samples_b.
     returns [posterior_samples_a, posterior_samples_b]))))"

text \<open>
  The body of the loop of \<^verbatim>\<open>get_prob_reject_null\<close> for the index \<open>i\<close>: two fresh
  sample sets, their difference, its interval, and the mark in \<open>rejection\<close>. The two
  arrays of potential successes have \<open>mc_samples\<close> elements and \<open>i\<close> is below it.
\<close>

definition rejection_step ::
  "int \<Rightarrow> int \<Rightarrow> int list \<Rightarrow> int list \<Rightarrow> nat \<Rightarrow> real list \<Rightarrow> real list action" where
  "rejection_step planned_trials_a planned_trials_b potential_successes_a potential_successes_b
       i rejection =
     andthen get_mc_samples (\<lambda>n_a.
     andthen (np_random_beta (potential_successes_a ! i + 1)
                (planned_trials_a - potential_successes_a ! i + 1) n_a)
       (\<lambda>post_samples_a.
     andthen get_mc_samples (\<lambda>n_b.
     andthen (np_random_beta (potential_successes_b ! i + 1)
                (planned_trials_b - potential_successes_b ! i + 1) n_b)
       (\<lambda>post_samples_b.
     let post_samples_b_minus_a = map2 (\<lambda>b a. b - a) post_samples_b post_samples_a in
     andthen get_alpha (\<lambda>al.
     andthen (lift_result (np_quantile post_samples_b_minus_a [al / 2, 1 - al / 2]))
       (\<lambda>interval.
     returns (if interval ! 0 > 0 \<or> interval ! 1 < 0 then rejection[i := 1]
              else rejection)))))))"

definition get_prob_reject_null ::
  "int \<Rightarrow> int \<Rightarrow> int \<Rightarrow> int \<Rightarrow> int \<Rightarrow> int \<Rightarrow> real list \<Rightarrow> real list \<Rightarrow> float64 action" where
  "get_prob_reject_null planned_trials_a planned_trials_b completed_trials_a completed_trials_b
       successes_a successes_b posterior_samples_a posterior_samples_b =
     andthen get_mc_samples (\<lambda>n_a.
     andthen (np_random_binomial (planned_trials_a - completed_trials_a) posterior_samples_a n_a)
       (\<lambda>draws_a.
     let potential_successes_a = map (\<lambda>x. x + successes_a) draws_a in
     andthen get_mc_samples (\<lambda>n_b.
     andthen (np_random_binomial (planned_trials_b - completed_trials_b) posterior_samples_b n_b)
       (\<lambda>draws_b.
     let potential_successes_b = map (\<lambda>x. x + successes_b) draws_b in
     andthen get_mc_samples (\<lambda>n_z.
     andthen (lift_result (np_zeros n_z)) (\<lambda>zeros.
     andthen get_mc_samples (\<lambda>n_r.
     andthen (for_loop [0..<nat n_r]
                (rejection_step planned_trials_a planned_trials_b
                   potential_successes_a potential_successes_b) zeros)
       (\<lambda>rejection.
     returns (np_mean (map Finite rejection))))))))))"

record AnalysisResult =
  conversion_rate_a :: real
  conversion_rate_b :: real
  expected_lift :: float64
  pr_b_gt_a :: float64
  pr_reject_null :: float64
  posterior_lift :: "float64 list"

definition analyze_experiment ::
  "int \<Rightarrow> int \<Rightarrow> int \<Rightarrow> int \<Rightarrow> int \<Rightarrow> int \<Rightarrow> AnalysisResult action" where
  "analyze_experiment planned_trials_a planned_trials_b completed_trials_a completed_trials_b
       successes_a successes_b =
     andthen (get_posterior_samples completed_trials_a completed_trials_b successes_a successes_b)
       (\<lambda>posterior_samples.
     let lift = map2 (\<lambda>b a. np_divide (b - a) a) (posterior_samples ! 1) (posterior_samples ! 0) in
     andthen (lift_result (py_truediv successes_a completed_trials_a)) (\<lambda>rate_a.
     andthen (lift_result (py_truediv successes_b completed_trials_b)) (\<lambda>rate_b.
     let mean_lift = np_mean lift;
         beats = np_mean (map (\<lambda>x. Finite (if f_ge x (Finite 0) then 1 else 0)) lift) in
     andthen (get_prob_reject_null planned_trials_a planned_trials_b
                completed_trials_a completed_trials_b successes_a successes_b
                (posterior_samples ! 0) (posterior_samples ! 1))
       (\<lambda>reject.
     returns \<lparr>conversion_rate_a = rate_a,
              conversion_rate_b = rate_b,
              expected_lift = mean_lift,
              pr_b_gt_a = beats,
              pr_reject_null = reject,
              posterior_lift = lift\<rparr>))))"

section \<open>The decision rule of \<^verbatim>\<open>app.py\<close>\<close>

text \<open>
  The conclusion that \<^verbatim>\<open>analyze_experiment()\<close> of the application writes to the
  page, and the image it picks, from \<^verbatim>\<open>exp_output[4]\<close> and \<^verbatim>\<open>exp_output[3]\<close>.
\<close>

definition conclusion :: "AnalysisResult \<Rightarrow> string \<times> string" where
  "conclusion exp_output =
     (if f_less (pr_reject_null exp_output) (Finite 0.01)
         \<or> f_less (Finite 0.99) (pr_reject_null exp_output)
      then
        (''## Experiment can be terminated. '' @
           (if f_less (pr_reject_null exp_output) (Finite 0.01)
            then ''No difference between experiment and control will be found.''
            else if f_less (Finite 0.5) (pr_b_gt_a exp_output)
                 then ''Test is superior to control.''
                 else ''Control is superior to test.''),
         ''images/terminator_okay.gif'')
      else
        (''## Experiment should not be terminated.'',
         ''images/thou_shalt_not_terminate.jpeg''))"

definition app_analyze_experiment ::
  "int \<Rightarrow> int \<Rightarrow> int \<Rightarrow> int \<Rightarrow> int \<Rightarrow> int \<Rightarrow> (string \<times> string) action" where
  "app_analyze_experiment planned_trials_a planned_trials_b completed_trials_a completed_trials_b
       successes_a successes_b =
     andthen (analyze_experiment planned_trials_a planned_trials_b
                completed_trials_a completed_trials_b successes_a successes_b)
       (\<lambda>exp_output. returns (conclusion exp_output))"

section \<open>Describing a run\<close>

text \<open>
  The inputs the specification calls valid: an arm's observation
  (\<open>plannedTrials \<ge> 1\<close>, \<open>0 \<le> completedTrials \<le> plannedTrials\<close>,
  \<open>0 \<le> successes \<le> completedTrials\<close>) and a posterior sample set of \<open>N\<close> values
  in \<open>[0, 1]\<close>.
\<close>

definition valid_observation :: "int \<Rightarrow> int \<Rightarrow> int \<Rightarrow> bool" where
  "valid_observation planned completed successes =
     (1 \<le> planned \<and> 0 \<le> completed \<and> completed \<le> planned
      \<and> 0 \<le> successes \<and> successes \<le> completed)"

definition valid_samples :: "int \<Rightarrow> real list \<Rightarrow> bool" where
  "valid_samples n ps = (length ps = nat n \<and> (\<forall>x \<in> set ps. 0 \<le> x \<and> x \<le> 1))"

text \<open>
  The hypothetical final success counts of one arm: the Binomial variates of call
  number \<open>k\<close> for \<open>remaining\<close> trials, one per posterior draw, plus the observed
  successes.
\<close>

definition final_successes ::
  "np_random \<Rightarrow> nat \<Rightarrow> int \<Rightarrow> real list \<Rightarrow> int \<Rightarrow> int \<Rightarrow> int list" where
  "final_successes g k remaining ps successes n =
     map (\<lambda>i. binomial_variate g k remaining (ps ! i) i + successes) [0..<nat n]"

text \<open>
  The inner differences test minus control of one outer scenario: the control set is
  the Beta call number \<open>k\<close> with shapes \<open>(fa + 1, planned_a - fa + 1)\<close>, the test set
  the call after it with shapes \<open>(fb + 1, planned_b - fb + 1)\<close>.
\<close>

definition inner_differences ::
  "np_random \<Rightarrow> nat \<Rightarrow> int \<Rightarrow> int \<Rightarrow> int \<Rightarrow> int \<Rightarrow> nat \<Rightarrow> real list" where
  "inner_differences g k planned_a planned_b fa fb n =
     map (\<lambda>j. beta_variate g (Suc k) (fb + 1) (planned_b - fb + 1) j
              - beta_variate g k (fa + 1) (planned_a - fa + 1) j) [0..<n]"

text \<open>
  Scenario \<open>i\<close> of a loop that starts at call number \<open>k0\<close> makes the calls
  \<open>k0 + 2 * i\<close> and \<open>k0 + 2 * i + 1\<close>.
\<close>

definition step_differences ::
  "np_random \<Rightarrow> nat \<Rightarrow> int \<Rightarrow> int \<Rightarrow> int list \<Rightarrow> int list \<Rightarrow> int \<Rightarrow> nat \<Rightarrow> real list" where
  "step_differences g k0 planned_a planned_b fas fbs n i =
     inner_differences g (k0 + 2 * i) planned_a planned_b (fas ! i) (fbs ! i) (nat n)"

definition step_requests :: "int \<Rightarrow> int \<Rightarrow> int list \<Rightarrow> int list \<Rightarrow> int \<Rightarrow> nat \<Rightarrow> request list" where
  "step_requests planned_a planned_b fas fbs n i =
     [BetaRequest (fas ! i + 1) (planned_a - fas ! i + 1) n,
      BetaRequest (fbs ! i + 1) (planned_b - fbs ! i + 1) n]"

text \<open>The test the loop applies to the interval of the differences.\<close>

definition step_mark :: "real \<Rightarrow> real list \<Rightarrow> bool" where
  "step_mark al ds = (quantile_linear ds (al / 2) > 0 \<or> quantile_linear ds (1 - al / 2) < 0)"



fun is_finite :: "float64 \<Rightarrow> bool" where
  "is_finite (Finite x) = True"
| "is_finite v = False"

text \<open>
  An action that touches the world only by having the generator answer requests, each
  of size \<open>n\<close>, whenever \<open>mc_samples\<close> is \<open>n\<close> at its start.
\<close>

definition only_serves :: "int \<Rightarrow> 'a action \<Rightarrow> bool" where
  "only_serves n m =
     (\<forall>w. mc_samples (self w) = n \<longrightarrow>
        (\<exists>rs. snd (m w) = serve rs w \<and> (\<forall>r \<in> set rs. request_size r = n)))"

subsection \<open>Two concrete worlds\<close>

text \<open>
  Two samples per set. A Beta call number 0 or 4 hands out \<open>1/4\<close>, every other Beta
  call \<open>1/2\<close>, and a Binomial call hands out no success. In an analysis that starts
  here the control posterior is \<open>[1/4, 1/4]\<close> and the test posterior \<open>[1/2, 1/2]\<close>
  (calls 0 and 1), the Binomial calls are 2 and 3, the first scenario draws \<open>1/4\<close>
  against \<open>1/2\<close> (calls 4 and 5) and the second \<open>1/2\<close> against \<open>1/2\<close> (calls 6
  and 7).
\<close>

definition demo_world :: world where
  "demo_world =
     \<lparr>self = \<lparr>mc_samples = 2, alpha = 0.05\<rparr>,
      rng = \<lparr>beta_variate = (\<lambda>k a b i. if k = 0 \<or> k = 4 then 1 / 4 else 1 / 2),
             binomial_variate = (\<lambda>k n p i. 0),
             served = []\<rparr>\<rparr>"


text \<open>The marks of the loop: as many as scenarios, each in \<open>[0, 1]\<close>.\<close>

definition unit_marks :: "nat \<Rightarrow> real list \<Rightarrow> bool" where
  "unit_marks n rej = (length rej = n \<and> (\<forall>x \<in> set rej. 0 \<le> x \<and> x \<le> 1))"

text \<open>What \<^verbatim>\<open>analyze_experiment(4, 4, 2, 2, 1, 1)\<close> returns in the first world.\<close>

definition demo_result :: AnalysisResult where
  "demo_result =
     \<lparr>conversion_rate_a = 1 / 2, conversion_rate_b = 1 / 2,
      expected_lift = Finite 1, pr_b_gt_a = Finite 1, pr_reject_null = Finite (1 / 2),
      posterior_lift = [Finite 1, Finite 1]\<rparr>"


section \<open>Actions, the generator and the loop\<close>

lemma andthen_returnsE:
  assumes "andthen m f w = (Inr y, w'')"
  obtains x w' where "m w = (Inr x, w')" and "f x w' = (Inr y, w'')"
  using assms by (auto simp: andthen_def split: prod.splits sum.splits)

lemma andthen_get_mc_samples [simp]: "andthen get_mc_samples f w = f (mc_samples (self w)) w"
  by (simp add: andthen_def get_mc_samples_def)

lemma andthen_get_alpha [simp]: "andthen get_alpha f w = f (alpha (self w)) w"
  by (simp add: andthen_def get_alpha_def)

lemma andthen_lift_Inr [simp]: "andthen (lift_result (Inr x)) f w = f x w"
  by (simp add: andthen_def lift_result_def)

lemma andthen_lift_Inl [simp]: "andthen (lift_result (Inl e)) f w = (Inl e, w)"
  by (simp add: andthen_def lift_result_def)

lemma self_serve [simp]: "self (serve rs w) = self w"
  by (simp add: serve_def)

lemma beta_variate_serve [simp]: "beta_variate (rng (serve rs w)) = beta_variate (rng w)"
  by (simp add: serve_def)

lemma binomial_variate_serve [simp]: "binomial_variate (rng (serve rs w)) = binomial_variate (rng w)"
  by (simp add: serve_def)

lemma served_serve [simp]: "served (rng (serve rs w)) = served (rng w) @ rs"
  by (simp add: serve_def)

lemma serve_serve [simp]: "serve rs (serve rs' w) = serve (rs' @ rs) w"
  by (simp add: serve_def)

lemma serve_Nil [simp]: "serve [] w = w"
  by (simp add: serve_def)

lemma map2_same: "map2 f (map g xs) (map h xs) = map (\<lambda>x. f (g x) (h x)) xs"
  by (induction xs) auto

lemma inner_differences_serve [simp]:
  "inner_differences (rng (serve rs w)) = inner_differences (rng w)"
  by (simp add: inner_differences_def fun_eq_iff)

lemma inner_differences_Nil_iff [simp]: "inner_differences g k pa pb fa fb n = [] \<longleftrightarrow> n = 0"
  by (simp add: inner_differences_def)

lemma andthen_np_random_beta:
  "andthen (np_random_beta a b n) f w =
     (if a \<le> 0 \<or> b \<le> 0 \<or> n < 0 then (Inl ValueError, w)
      else f (map (beta_variate (rng w) (length (served (rng w))) a b) [0..<nat n])
             (serve [BetaRequest a b n] w))"
  by (simp add: andthen_def np_random_beta_def)

lemma np_quantile_pair:
  "ds \<noteq> [] \<Longrightarrow> 0 \<le> al \<Longrightarrow> al \<le> 2 \<Longrightarrow>
   np_quantile ds [al / 2, 1 - al / 2] = Inr [quantile_linear ds (al / 2), quantile_linear ds (1 - al / 2)]"
  by (simp add: np_quantile_def)

lemma rejection_step_ok:
  assumes "1 \<le> mc_samples (self w)" "0 \<le> alpha (self w)" "alpha (self w) \<le> 2"
    and "0 \<le> fas ! i" "fas ! i \<le> pa" "0 \<le> fbs ! i" "fbs ! i \<le> pb"
  shows "rejection_step pa pb fas fbs i rej w =
     (Inr (if step_mark (alpha (self w))
                (inner_differences (rng w) (length (served (rng w))) pa pb (fas ! i) (fbs ! i)
                   (nat (mc_samples (self w))))
           then rej[i := 1] else rej),
      serve (step_requests pa pb fas fbs (mc_samples (self w)) i) w)"
proof -
  let ?ds = "inner_differences (rng w) (length (served (rng w))) pa pb (fas ! i) (fbs ! i)
                   (nat (mc_samples (self w)))"
  have ne: "?ds \<noteq> []" using assms(1) by simp
  show ?thesis
    using assms np_quantile_pair [OF ne assms(2,3)]
    by (simp add: rejection_step_def andthen_np_random_beta map2_same returns_def
        step_requests_def step_mark_def inner_differences_def Let_def)
qed


lemma for_loop_append:
  "for_loop (xs @ ys) body s = andthen (for_loop xs body s) (for_loop ys body)"
proof (induction xs arbitrary: s)
  case Nil
  show ?case by (simp add: returns_def andthen_def fun_eq_iff)
next
  case (Cons x xs)
  show ?case
    by (simp add: Cons.IH andthen_def fun_eq_iff split: prod.splits sum.splits)
qed

lemma for_loop_snoc:
  "for_loop xs body s w = (Inr s', w') \<Longrightarrow> for_loop (xs @ [x]) body s w = body x s' w'"
  by (simp add: for_loop_append andthen_def returns_def fun_eq_iff split: prod.splits sum.splits)

lemma length_concat_step_requests [simp]:
  "length (concat (map (step_requests pa pb fas fbs n) xs)) = 2 * length xs"
  by (induction xs) (simp_all add: step_requests_def)

lemma rejection_loop_prefix:
  assumes N: "1 \<le> mc_samples (self w)" and al: "0 \<le> alpha (self w)" "alpha (self w) \<le> 2"
    and fa: "\<forall>i < nat (mc_samples (self w)). 0 \<le> fas ! i \<and> fas ! i \<le> pa"
    and fb: "\<forall>i < nat (mc_samples (self w)). 0 \<le> fbs ! i \<and> fbs ! i \<le> pb"
    and n: "n \<le> nat (mc_samples (self w))"
  shows "for_loop [0..<n] (rejection_step pa pb fas fbs) (replicate (nat (mc_samples (self w))) 0) w =
     (Inr (map (\<lambda>i. if i < n \<and> step_mark (alpha (self w))
                      (step_differences (rng w) (length (served (rng w))) pa pb fas fbs
                         (mc_samples (self w)) i)
                    then 1 else 0) [0..<nat (mc_samples (self w))]),
      serve (concat (map (step_requests pa pb fas fbs (mc_samples (self w))) [0..<n])) w)"
  using n
proof (induction n)
  case 0
  show ?case by (simp add: returns_def map_replicate_const)
next
  case (Suc n)
  let ?N = "mc_samples (self w)"
  let ?w = "serve (concat (map (step_requests pa pb fas fbs ?N) [0..<n])) w"
  let ?P = "\<lambda>i. step_mark (alpha (self w))
               (step_differences (rng w) (length (served (rng w))) pa pb fas fbs ?N i)"
  from Suc.prems have lt: "n < nat ?N" by simp
  have IH: "for_loop [0..<n] (rejection_step pa pb fas fbs) (replicate (nat ?N) 0) w =
     (Inr (map (\<lambda>i. if i < n \<and> ?P i then 1 else 0) [0..<nat ?N]), ?w)"
    using Suc.IH lt by simp
  have step: "rejection_step pa pb fas fbs n rej ?w =
     (Inr (if ?P n then rej[n := 1] else rej),
      serve (concat (map (step_requests pa pb fas fbs ?N) [0..<Suc n])) w)" for rej
    using rejection_step_ok [of ?w fas n pa fbs pb rej] N al fa fb lt
    by (simp add: step_differences_def)
  have "for_loop [0..<Suc n] (rejection_step pa pb fas fbs) (replicate (nat ?N) 0) w =
        rejection_step pa pb fas fbs n (map (\<lambda>i. if i < n \<and> ?P i then 1 else 0) [0..<nat ?N]) ?w"
    using for_loop_snoc [OF IH, of n] by simp
  also have "\<dots> = (Inr (map (\<lambda>i. if i < Suc n \<and> ?P i then 1 else 0) [0..<nat ?N]),
      serve (concat (map (step_requests pa pb fas fbs ?N) [0..<Suc n])) w)"
  proof (cases "?P n")
    case True
    have "(map (\<lambda>i. if i < n \<and> ?P i then 1 else (0::real)) [0..<nat ?N])[n := 1] =
          map (\<lambda>i. if i < Suc n \<and> ?P i then 1 else 0) [0..<nat ?N]"
      using True lt by (auto simp: list_eq_iff_nth_eq nth_list_update less_Suc_eq)
    with True show ?thesis by (simp only: step if_True)
  next
    case False
    have "map (\<lambda>i. if i < n \<and> ?P i then 1 else (0::real)) [0..<nat ?N] =
          map (\<lambda>i. if i < Suc n \<and> ?P i then 1 else 0) [0..<nat ?N]"
      using False lt by (auto simp: list_eq_iff_nth_eq less_Suc_eq)
    with False show ?thesis by (simp only: step if_False)
  qed
  finally show ?case .
qed


lemma np_random_binomial_ok:
  assumes "valid_samples n ps" "0 \<le> m" "0 \<le> n"
  shows "np_random_binomial m ps n w =
     (Inr (map (\<lambda>i. binomial_variate (rng w) (length (served (rng w))) m (ps ! i) i) [0..<nat n]),
      serve [BinomialRequest m ps n] w)"
proof -
  have "\<not> (\<exists>x \<in> set ps. x < 0 \<or> 1 < x)"
    using assms(1) by (auto simp: valid_samples_def)
  moreover have "length ps = nat n"
    using assms(1) by (simp add: valid_samples_def)
  moreover have "map (\<lambda>i. binomial_variate (rng w) (length (served (rng w))) m
                         (if length ps = 1 then ps ! 0 else ps ! i) i) [0..<nat n] =
                 map (\<lambda>i. binomial_variate (rng w) (length (served (rng w))) m (ps ! i) i) [0..<nat n]"
    using \<open>length ps = nat n\<close> by (intro map_cong) auto
  ultimately show ?thesis
    using assms(2,3) by (simp add: np_random_binomial_def)
qed

lemma foldl_f_add_Finite:
  "foldl f_add (Finite a) (map Finite xs) = Finite (a + sum_list xs)"
  by (induction xs arbitrary: a) (simp_all add: add.assoc)

lemma np_mean_Finite:
  "xs \<noteq> [] \<Longrightarrow> np_mean (map Finite xs) = Finite (sum_list xs / real (length xs))"
  by (simp add: np_mean_def foldl_f_add_Finite)

lemma sum_list_marks:
  "sum_list (map (\<lambda>i. if P i then 1 else (0::real)) xs) = real (length (filter P xs))"
  by (induction xs) simp_all

lemma step_differences_serve [simp]:
  "step_differences (rng (serve rs w)) = step_differences (rng w)"
  by (simp add: step_differences_def fun_eq_iff)

lemma final_successes_bounds:
  assumes "np_random_ok g" "valid_observation planned completed successes" "i < nat n"
  shows "successes \<le> final_successes g k (planned - completed) ps successes n ! i"
    and "final_successes g k (planned - completed) ps successes n ! i \<le> planned"
proof -
  have r: "0 \<le> planned - completed" using assms(2) by (simp add: valid_observation_def)
  have "0 \<le> binomial_variate g k (planned - completed) (ps ! i) i"
    and "binomial_variate g k (planned - completed) (ps ! i) i \<le> planned - completed"
    using assms(1) r by (simp_all add: np_random_ok_def)
  then show "successes \<le> final_successes g k (planned - completed) ps successes n ! i"
    and "final_successes g k (planned - completed) ps successes n ! i \<le> planned"
    using assms(2,3) by (simp_all add: final_successes_def valid_observation_def)
qed

lemma rejection_loop_closed_form:
  assumes N: "1 \<le> mc_samples (self w)" and al: "0 \<le> alpha (self w)" "alpha (self w) \<le> 2"
    and ok: "np_random_ok (rng w)"
    and va: "valid_observation pa ca sa" and vb: "valid_observation pb cb sb"
  shows "for_loop [0..<nat (mc_samples (self w))]
           (rejection_step pa pb
              (final_successes (rng w) (length (served (rng w))) (pa - ca) psa sa (mc_samples (self w)))
              (final_successes (rng w) (Suc (length (served (rng w)))) (pb - cb) psb sb (mc_samples (self w))))
           (replicate (nat (mc_samples (self w))) 0)
           (serve [BinomialRequest (pa - ca) psa (mc_samples (self w)),
                   BinomialRequest (pb - cb) psb (mc_samples (self w))] w) =
     (Inr (map (\<lambda>i. if step_mark (alpha (self w))
               (step_differences (rng w) (length (served (rng w)) + 2) pa pb
                  (final_successes (rng w) (length (served (rng w))) (pa - ca) psa sa (mc_samples (self w)))
                  (final_successes (rng w) (Suc (length (served (rng w)))) (pb - cb) psb sb (mc_samples (self w)))
                  (mc_samples (self w)) i) then 1 else 0)
        [0..<nat (mc_samples (self w))]),
      serve (BinomialRequest (pa - ca) psa (mc_samples (self w))
             # BinomialRequest (pb - cb) psb (mc_samples (self w))
             # concat (map (step_requests pa pb
                  (final_successes (rng w) (length (served (rng w))) (pa - ca) psa sa (mc_samples (self w)))
                  (final_successes (rng w) (Suc (length (served (rng w)))) (pb - cb) psb sb (mc_samples (self w)))
                  (mc_samples (self w))) [0..<nat (mc_samples (self w))])) w)"
proof -
  let ?N = "mc_samples (self w)"
  let ?k = "length (served (rng w))"
  let ?fas = "final_successes (rng w) ?k (pa - ca) psa sa ?N"
  let ?fbs = "final_successes (rng w) (Suc ?k) (pb - cb) psb sb ?N"
  let ?w2 = "serve [BinomialRequest (pa - ca) psa ?N, BinomialRequest (pb - cb) psb ?N] w"
  let ?P = "\<lambda>i. step_mark (alpha (self w)) (step_differences (rng w) (?k + 2) pa pb ?fas ?fbs ?N i)"
  have fa: "\<forall>i < nat (mc_samples (self ?w2)). 0 \<le> ?fas ! i \<and> ?fas ! i \<le> pa"
  proof (intro allI impI)
    fix i assume "i < nat (mc_samples (self ?w2))"
    then have i: "i < nat ?N" by simp
    have "0 \<le> sa" using va by (simp add: valid_observation_def)
    with final_successes_bounds [OF ok va i, of ?k psa] show "0 \<le> ?fas ! i \<and> ?fas ! i \<le> pa"
      by linarith
  qed
  have fb: "\<forall>i < nat (mc_samples (self ?w2)). 0 \<le> ?fbs ! i \<and> ?fbs ! i \<le> pb"
  proof (intro allI impI)
    fix i assume "i < nat (mc_samples (self ?w2))"
    then have i: "i < nat ?N" by simp
    have "0 \<le> sb" using vb by (simp add: valid_observation_def)
    with final_successes_bounds [OF ok vb i, of "Suc ?k" psb] show "0 \<le> ?fbs ! i \<and> ?fbs ! i \<le> pb"
      by linarith
  qed
  have "map (\<lambda>i. if i < nat ?N \<and> ?P i then 1 else (0::real)) [0..<nat ?N] =
        map (\<lambda>i. if ?P i then 1 else 0) [0..<nat ?N]"
    by (intro map_cong) auto
  then show ?thesis
    using rejection_loop_prefix [of ?w2 fas pa fbs pb "nat ?N" for fas fbs, OF _ _ _ fa fb] N al
    by simp
qed

lemma get_prob_reject_null_closed_form:
  assumes N: "1 \<le> mc_samples (self w)" and al: "0 \<le> alpha (self w)" "alpha (self w) \<le> 2"
    and ok: "np_random_ok (rng w)"
    and va: "valid_observation pa ca sa" and vb: "valid_observation pb cb sb"
    and sa: "valid_samples (mc_samples (self w)) psa"
    and sb: "valid_samples (mc_samples (self w)) psb"
  shows "get_prob_reject_null pa pb ca cb sa sb psa psb w =
     (Inr (Finite (real (length (filter
        (\<lambda>i. step_mark (alpha (self w))
               (step_differences (rng w) (length (served (rng w)) + 2) pa pb
                  (final_successes (rng w) (length (served (rng w))) (pa - ca) psa sa (mc_samples (self w)))
                  (final_successes (rng w) (Suc (length (served (rng w)))) (pb - cb) psb sb (mc_samples (self w)))
                  (mc_samples (self w)) i))
        [0..<nat (mc_samples (self w))])) / real_of_int (mc_samples (self w)))),
      serve (BinomialRequest (pa - ca) psa (mc_samples (self w))
             # BinomialRequest (pb - cb) psb (mc_samples (self w))
             # concat (map (step_requests pa pb
                  (final_successes (rng w) (length (served (rng w))) (pa - ca) psa sa (mc_samples (self w)))
                  (final_successes (rng w) (Suc (length (served (rng w)))) (pb - cb) psb sb (mc_samples (self w)))
                  (mc_samples (self w))) [0..<nat (mc_samples (self w))])) w)"
proof -
  let ?N = "mc_samples (self w)"
  let ?k = "length (served (rng w))"
  let ?fas = "final_successes (rng w) ?k (pa - ca) psa sa ?N"
  let ?fbs = "final_successes (rng w) (Suc ?k) (pb - cb) psb sb ?N"
  let ?w1 = "serve [BinomialRequest (pa - ca) psa ?N] w"
  let ?w2 = "serve [BinomialRequest (pa - ca) psa ?N, BinomialRequest (pb - cb) psb ?N] w"
  let ?P = "\<lambda>i. step_mark (alpha (self w)) (step_differences (rng w) (?k + 2) pa pb ?fas ?fbs ?N i)"
  have ra: "0 \<le> pa - ca" and rb: "0 \<le> pb - cb"
    using va vb by (simp_all add: valid_observation_def)
  have N0: "0 \<le> ?N" using N by simp
  have b1: "np_random_binomial (pa - ca) psa ?N w =
      (Inr (map (\<lambda>i. binomial_variate (rng w) ?k (pa - ca) (psa ! i) i) [0..<nat ?N]), ?w1)"
    by (rule np_random_binomial_ok [OF sa ra N0])
  have b2: "np_random_binomial (pb - cb) psb ?N ?w1 =
      (Inr (map (\<lambda>i. binomial_variate (rng w) (Suc ?k) (pb - cb) (psb ! i) i) [0..<nat ?N]), ?w2)"
    using np_random_binomial_ok [OF sb rb N0, of ?w1] by simp
  have loop: "for_loop [0..<nat ?N] (rejection_step pa pb ?fas ?fbs) (replicate (nat ?N) 0) ?w2 =
     (Inr (map (\<lambda>i. if ?P i then 1 else 0) [0..<nat ?N]),
      serve (BinomialRequest (pa - ca) psa ?N # BinomialRequest (pb - cb) psb ?N
             # concat (map (step_requests pa pb ?fas ?fbs ?N) [0..<nat ?N])) w)"
    by (rule rejection_loop_closed_form [OF N al ok va vb])
  have ne: "map (\<lambda>i. if ?P i then 1 else (0::real)) [0..<nat ?N] \<noteq> []"
    using N by simp
  have mean: "np_mean (map Finite (map (\<lambda>i. if ?P i then 1 else (0::real)) [0..<nat ?N])) =
      Finite (real (length (filter ?P [0..<nat ?N])) / real_of_int ?N)"
  proof -
    have "real (length (map (\<lambda>i. if ?P i then 1 else (0::real)) [0..<nat ?N])) = real_of_int ?N"
      using N by simp
    then show ?thesis
      by (simp only: np_mean_Finite [OF ne] sum_list_marks)
  qed
  have fas_eq: "map (\<lambda>x. x + sa) (map (\<lambda>i. binomial_variate (rng w) ?k (pa - ca) (psa ! i) i) [0..<nat ?N]) = ?fas"
    by (simp add: final_successes_def)
  have fbs_eq: "map (\<lambda>x. x + sb) (map (\<lambda>i. binomial_variate (rng w) (Suc ?k) (pb - cb) (psb ! i) i) [0..<nat ?N]) = ?fbs"
    by (simp add: final_successes_def)
  have s1: "andthen (np_random_binomial (pa - ca) psa ?N) f w =
      f (map (\<lambda>i. binomial_variate (rng w) ?k (pa - ca) (psa ! i) i) [0..<nat ?N]) ?w1"
    for f :: "int list \<Rightarrow> float64 action"
    using b1 by (simp add: andthen_def)
  have s2: "andthen (np_random_binomial (pb - cb) psb ?N) f ?w1 =
      f (map (\<lambda>i. binomial_variate (rng w) (Suc ?k) (pb - cb) (psb ! i) i) [0..<nat ?N]) ?w2"
    for f :: "int list \<Rightarrow> float64 action"
    using b2 by (simp add: andthen_def)
  have s3: "andthen (for_loop [0..<nat ?N] (rejection_step pa pb ?fas ?fbs) (replicate (nat ?N) 0)) f ?w2 =
      f (map (\<lambda>i. if ?P i then 1 else 0) [0..<nat ?N])
        (serve (BinomialRequest (pa - ca) psa ?N # BinomialRequest (pb - cb) psb ?N
             # concat (map (step_requests pa pb ?fas ?fbs ?N) [0..<nat ?N])) w)"
    for f :: "real list \<Rightarrow> float64 action"
    using loop by (simp add: andthen_def)
  have z: "np_zeros ?N = Inr (replicate (nat ?N) 0)"
    using N0 by (simp add: np_zeros_def)
  show ?thesis
    unfolding get_prob_reject_null_def
    by (simp only: andthen_get_mc_samples s1 Let_def fas_eq self_serve s2 fbs_eq z
        andthen_lift_Inr s3 returns_def mean)
qed

section \<open>The linear quantile is monotone\<close>





section \<open>What an action leaves behind\<close>

lemma get_posterior_samples_eq:
  "get_posterior_samples ca cb sa sb w =
     (if sa \<le> 0 \<or> ca - sa \<le> 0 \<or> mc_samples (self w) < 0 then (Inl ValueError, w)
      else if sb \<le> 0 \<or> cb - sb \<le> 0
        then (Inl ValueError, serve [BetaRequest sa (ca - sa) (mc_samples (self w))] w)
      else (Inr [map (beta_variate (rng w) (length (served (rng w))) sa (ca - sa))
                   [0..<nat (mc_samples (self w))],
                 map (beta_variate (rng w) (Suc (length (served (rng w)))) sb (cb - sb))
                   [0..<nat (mc_samples (self w))]],
            serve [BetaRequest sa (ca - sa) (mc_samples (self w)),
                   BetaRequest sb (cb - sb) (mc_samples (self w))] w))"
  by (simp add: get_posterior_samples_def andthen_np_random_beta returns_def)

lemma only_serves_returns: "only_serves n (returns x)"
  unfolding only_serves_def returns_def
  by (intro allI impI exI [of _ "[]"]) simp

lemma only_serves_lift_result: "only_serves n (lift_result r)"
  unfolding only_serves_def lift_result_def
  by (intro allI impI exI [of _ "[]"]) simp

lemma only_serves_andthen:
  assumes "only_serves n m" and "\<And>x. only_serves n (f x)"
  shows "only_serves n (andthen m f)"
  unfolding only_serves_def
proof (intro allI impI)
  fix w :: world assume n: "mc_samples (self w) = n"
  from assms(1) n obtain rs where rs: "snd (m w) = serve rs w" "\<forall>r \<in> set rs. request_size r = n"
    unfolding only_serves_def by blast
  show "\<exists>rs. snd (andthen m f w) = serve rs w \<and> (\<forall>r \<in> set rs. request_size r = n)"
  proof (cases "fst (m w)")
    case (Inl e)
    then have "andthen m f w = (Inl e, snd (m w))"
      by (cases "m w") (simp add: andthen_def)
    with rs show ?thesis by auto
  next
    case (Inr x)
    then have eq: "andthen m f w = f x (serve rs w)"
      using rs(1) by (cases "m w") (simp add: andthen_def)
    have "mc_samples (self (serve rs w)) = n" using n by simp
    with assms(2) [of x] obtain rs' where
      rs': "snd (f x (serve rs w)) = serve rs' (serve rs w)" "\<forall>r \<in> set rs'. request_size r = n"
      unfolding only_serves_def by blast
    show ?thesis
      using rs(2) rs' eq by (intro exI [of _ "rs @ rs'"]) auto
  qed
qed

lemma only_serves_get_mc_samples:
  assumes "only_serves n (f n)"
  shows "only_serves n (andthen get_mc_samples f)"
  using assms unfolding only_serves_def by simp

lemma only_serves_get_alpha:
  assumes "\<And>a. only_serves n (f a)"
  shows "only_serves n (andthen get_alpha f)"
  using assms unfolding only_serves_def by simp

lemma only_serves_np_random_beta: "only_serves n (np_random_beta a b n)"
  unfolding only_serves_def
proof (intro allI impI)
  fix w :: world
  show "\<exists>rs. snd (np_random_beta a b n w) = serve rs w \<and> (\<forall>r \<in> set rs. request_size r = n)"
  proof (cases "a \<le> 0 \<or> b \<le> 0 \<or> n < 0")
    case True
    then show ?thesis by (intro exI [of _ "[]"]) (simp add: np_random_beta_def)
  next
    case False
    then show ?thesis by (intro exI [of _ "[BetaRequest a b n]"]) (simp add: np_random_beta_def)
  qed
qed

lemma only_serves_np_random_binomial: "only_serves n (np_random_binomial m p n)"
  unfolding only_serves_def
proof (intro allI impI)
  fix w :: world
  show "\<exists>rs. snd (np_random_binomial m p n w) = serve rs w \<and> (\<forall>r \<in> set rs. request_size r = n)"
  proof (cases "m < 0 \<or> n < 0 \<or> (\<exists>x \<in> set p. x < 0 \<or> 1 < x)
         \<or> (length p \<noteq> nat n \<and> length p \<noteq> 1)")
    case True
    then show ?thesis by (intro exI [of _ "[]"]) (simp add: np_random_binomial_def)
  next
    case False
    then show ?thesis
      by (intro exI [of _ "[BinomialRequest m p n]"]) (simp add: np_random_binomial_def)
  qed
qed

lemma only_serves_for_loop:
  assumes "\<And>i s. only_serves n (body i s)"
  shows "only_serves n (for_loop xs body s)"
proof (induction xs arbitrary: s)
  case Nil
  show ?case by (simp add: only_serves_def returns_def) (metis serve_Nil empty_iff empty_set)
next
  case (Cons x xs)
  show ?case
    unfolding for_loop.simps
    by (intro only_serves_andthen assms Cons.IH)
qed

lemma only_serves_rejection_step: "only_serves n (rejection_step pa pb fas fbs i rej)"
  unfolding rejection_step_def Let_def
  by (intro only_serves_get_mc_samples only_serves_get_alpha only_serves_andthen
      only_serves_np_random_beta only_serves_lift_result only_serves_returns)

lemma only_serves_get_posterior_samples: "only_serves n (get_posterior_samples ca cb sa sb)"
  unfolding get_posterior_samples_def
  by (intro only_serves_get_mc_samples only_serves_andthen
      only_serves_np_random_beta only_serves_returns)

lemma only_serves_get_prob_reject_null:
  "only_serves n (get_prob_reject_null pa pb ca cb sa sb psa psb)"
  unfolding get_prob_reject_null_def Let_def
  by (intro only_serves_get_mc_samples only_serves_andthen only_serves_np_random_binomial
      only_serves_lift_result only_serves_for_loop only_serves_rejection_step only_serves_returns)

lemma only_serves_analyze_experiment:
  "only_serves n (analyze_experiment pa pb ca cb sa sb)"
  unfolding analyze_experiment_def Let_def
  by (intro only_serves_andthen only_serves_get_posterior_samples only_serves_lift_result
      only_serves_get_prob_reject_null only_serves_returns)

lemma only_serves_self:
  assumes "only_serves (mc_samples (self w)) m"
  shows "self (snd (m w)) = self w"
proof -
  from assms obtain rs where "snd (m w) = serve rs w"
    unfolding only_serves_def by blast
  then show ?thesis by simp
qed

lemma only_serves_served:
  assumes "only_serves (mc_samples (self w)) m"
  shows "\<exists>rs. served (rng (snd (m w))) = served (rng w) @ rs
            \<and> (\<forall>r \<in> set rs. request_size r = mc_samples (self w))"
proof -
  from assms obtain rs where "snd (m w) = serve rs w"
    and "\<forall>r \<in> set rs. request_size r = mc_samples (self w)"
    unfolding only_serves_def by blast
  then show ?thesis by (intro exI [of _ rs]) simp
qed

lemma np_random_beta_length:
  "fst (np_random_beta a b sz w) = Inr xs \<Longrightarrow> length xs = nat sz"
  by (auto simp: np_random_beta_def split: if_splits)

section \<open>The marks stay in the unit interval\<close>

lemma for_loop_invariant:
  assumes step: "\<And>i s w s' w'. I s \<Longrightarrow> body i s w = (Inr s', w') \<Longrightarrow> I s'"
    and "I s" and "for_loop xs body s w = (Inr s', w')"
  shows "I s'"
  using assms(2,3)
proof (induction xs arbitrary: s w)
  case Nil
  then show ?case by (simp add: returns_def)
next
  case (Cons x xs)
  from Cons.prems(2) obtain s1 w1 where
    "body x s w = (Inr s1, w1)" and "for_loop xs body s1 w1 = (Inr s', w')"
    by (auto elim: andthen_returnsE)
  with Cons.IH [of s1 w1] step [of s x w s1 w1] Cons.prems(1) show ?case by blast
qed

lemma andthen_lift_result:
  "andthen (lift_result r) f w = (case r of Inl e \<Rightarrow> (Inl e, w) | Inr x \<Rightarrow> f x w)"
  by (simp add: andthen_def lift_result_def)

lemma rejection_step_marks:
  assumes "rejection_step pa pb fas fbs i rej w = (Inr rej', w')"
  shows "rej' = rej[i := 1] \<or> rej' = rej"
  using assms
  by (auto simp: rejection_step_def andthen_np_random_beta andthen_lift_result
      returns_def Let_def split: sum.splits if_splits)

lemma unit_marks_step:
  assumes "unit_marks n rej" "rejection_step pa pb fas fbs i rej w = (Inr rej', w')"
  shows "unit_marks n rej'"
proof -
  from rejection_step_marks [OF assms(2)] show ?thesis
  proof
    assume "rej' = rej[i := 1]"
    moreover have "set (rej[i := 1]) \<subseteq> insert 1 (set rej)" by (rule set_update_subset_insert)
    ultimately show ?thesis using assms(1) by (auto simp: unit_marks_def)
  next
    assume "rej' = rej" with assms(1) show ?thesis by simp
  qed
qed

lemma sum_list_unit_bounds:
  assumes "\<forall>x \<in> set xs. 0 \<le> x \<and> x \<le> (1::real)"
  shows "0 \<le> sum_list xs \<and> sum_list xs \<le> real (length xs)"
  using assms by (induction xs) auto

lemma np_mean_unit_marks:
  assumes "unit_marks n rej" "0 < n"
  shows "\<exists>y. np_mean (map Finite rej) = Finite y \<and> 0 \<le> y \<and> y \<le> 1"
proof -
  have ne: "rej \<noteq> []" and len: "0 < length rej" using assms by (auto simp: unit_marks_def)
  have "0 \<le> sum_list rej \<and> sum_list rej \<le> real (length rej)"
    using assms(1) by (intro sum_list_unit_bounds) (simp add: unit_marks_def)
  then have "0 \<le> sum_list rej / real (length rej) \<and> sum_list rej / real (length rej) \<le> 1"
    using len by (simp add: divide_le_eq)
  then show ?thesis by (simp add: np_mean_Finite [OF ne])
qed

lemma andthen_np_random_binomial:
  "andthen (np_random_binomial n p sz) f w =
     (if n < 0 \<or> sz < 0 \<or> (\<exists>x \<in> set p. x < 0 \<or> 1 < x)
         \<or> (length p \<noteq> nat sz \<and> length p \<noteq> 1)
      then (Inl ValueError, w)
      else f (map (\<lambda>i. binomial_variate (rng w) (length (served (rng w))) n
                         (if length p = 1 then p ! 0 else p ! i) i) [0..<nat sz])
             (serve [BinomialRequest n p sz] w))"
  by (simp add: andthen_def np_random_binomial_def)

lemma get_prob_reject_null_range:
  assumes run: "get_prob_reject_null pa pb ca cb sa sb psa psb w = (Inr r, w')"
    and N: "1 \<le> mc_samples (self w)"
  shows "\<exists>y. r = Finite y \<and> 0 \<le> y \<and> y \<le> 1"
proof -
  let ?N = "mc_samples (self w)"
  have z: "np_zeros ?N = Inr (replicate (nat ?N) 0)"
    using N by (simp add: np_zeros_def)
  from run obtain fas fbs w2 where
    "andthen (for_loop [0..<nat ?N] (rejection_step pa pb fas fbs) (replicate (nat ?N) 0))
       (\<lambda>rejection. returns (np_mean (map Finite rejection))) w2 = (Inr r, w')"
    unfolding get_prob_reject_null_def
    by (simp add: andthen_np_random_binomial z Let_def split: if_splits)
  then obtain rej w3 where
    loop: "for_loop [0..<nat ?N] (rejection_step pa pb fas fbs) (replicate (nat ?N) 0) w2 = (Inr rej, w3)"
    and r: "r = np_mean (map Finite rej)"
    by (auto elim!: andthen_returnsE simp: returns_def)
  have "unit_marks (nat ?N) (replicate (nat ?N) 0)" by (simp add: unit_marks_def)
  then have "unit_marks (nat ?N) rej"
    using loop by (rule for_loop_invariant [rotated 1]) (rule unit_marks_step)
  moreover have "0 < nat ?N" using N by arith
  ultimately show ?thesis
    unfolding r by (rule np_mean_unit_marks)
qed

section \<open>Taking \<^verbatim>\<open>analyze_experiment\<close> apart\<close>

lemma andthen_fst_Inr:
  assumes "fst (andthen m f w) = Inr y"
  obtains x w' where "m w = (Inr x, w')" and "fst (f x w') = Inr y"
  using assms by (cases "m w") (auto simp: andthen_def split: sum.splits)

lemma analyze_experiment_unfold:
  fixes w :: world and pa pb ca cb sa sb :: int
  defines "n \<equiv> mc_samples (self w)" and "k \<equiv> length (served (rng w))"
  defines "psa \<equiv> map (beta_variate (rng w) k sa (ca - sa)) [0..<nat n]"
    and "psb \<equiv> map (beta_variate (rng w) (Suc k) sb (cb - sb)) [0..<nat n]"
  defines "lift \<equiv> map2 (\<lambda>b a. np_divide (b - a) a) psb psa"
  shows "analyze_experiment pa pb ca cb sa sb w =
     (if sa \<le> 0 \<or> ca - sa \<le> 0 \<or> n < 0 then (Inl ValueError, w)
      else if sb \<le> 0 \<or> cb - sb \<le> 0 then (Inl ValueError, serve [BetaRequest sa (ca - sa) n] w)
      else andthen (get_prob_reject_null pa pb ca cb sa sb psa psb)
             (\<lambda>reject. returns \<lparr>conversion_rate_a = real_of_int sa / real_of_int ca,
                conversion_rate_b = real_of_int sb / real_of_int cb,
                expected_lift = np_mean lift,
                pr_b_gt_a = np_mean (map (\<lambda>x. Finite (if f_ge x (Finite 0) then 1 else 0)) lift),
                pr_reject_null = reject,
                posterior_lift = lift\<rparr>)
             (serve [BetaRequest sa (ca - sa) n, BetaRequest sb (cb - sb) n] w))"
proof -
  have "andthen (get_posterior_samples ca cb sa sb) f w =
     (if sa \<le> 0 \<or> ca - sa \<le> 0 \<or> n < 0 then (Inl ValueError, w)
      else if sb \<le> 0 \<or> cb - sb \<le> 0 then (Inl ValueError, serve [BetaRequest sa (ca - sa) n] w)
      else f [psa, psb] (serve [BetaRequest sa (ca - sa) n, BetaRequest sb (cb - sb) n] w))"
    for f :: "real list list \<Rightarrow> AnalysisResult action"
    by (simp add: andthen_def get_posterior_samples_eq n_def k_def psa_def psb_def)
  then show ?thesis
    unfolding analyze_experiment_def
    by (auto simp: py_truediv_def Let_def lift_def)
qed

lemma analyze_experiment_Inr:
  fixes w :: world and pa pb ca cb sa sb :: int
  defines "n \<equiv> mc_samples (self w)" and "k \<equiv> length (served (rng w))"
  defines "psa \<equiv> map (beta_variate (rng w) k sa (ca - sa)) [0..<nat n]"
    and "psb \<equiv> map (beta_variate (rng w) (Suc k) sb (cb - sb)) [0..<nat n]"
  defines "lift \<equiv> map2 (\<lambda>b a. np_divide (b - a) a) psb psa"
  assumes "fst (analyze_experiment pa pb ca cb sa sb w) = Inr res"
  shows "0 < sa \<and> sa < ca \<and> 0 < sb \<and> sb < cb \<and> 0 \<le> n
     \<and> get_posterior_samples ca cb sa sb w =
         (Inr [psa, psb], serve [BetaRequest sa (ca - sa) n, BetaRequest sb (cb - sb) n] w)
     \<and> (\<exists>reject w'. get_prob_reject_null pa pb ca cb sa sb psa psb
                        (serve [BetaRequest sa (ca - sa) n, BetaRequest sb (cb - sb) n] w) = (Inr reject, w')
          \<and> res = \<lparr>conversion_rate_a = real_of_int sa / real_of_int ca,
                conversion_rate_b = real_of_int sb / real_of_int cb,
                expected_lift = np_mean lift,
                pr_b_gt_a = np_mean (map (\<lambda>x. Finite (if f_ge x (Finite 0) then 1 else 0)) lift),
                pr_reject_null = reject,
                posterior_lift = lift\<rparr>)"
proof -
  have ok: "\<not> (sa \<le> 0 \<or> ca - sa \<le> 0 \<or> n < 0)" "\<not> (sb \<le> 0 \<or> cb - sb \<le> 0)"
    using assms(6) unfolding analyze_experiment_unfold n_def
    by (auto split: if_splits)
  then have run: "fst (andthen (get_prob_reject_null pa pb ca cb sa sb psa psb)
             (\<lambda>reject. returns \<lparr>conversion_rate_a = real_of_int sa / real_of_int ca,
                conversion_rate_b = real_of_int sb / real_of_int cb,
                expected_lift = np_mean lift,
                pr_b_gt_a = np_mean (map (\<lambda>x. Finite (if f_ge x (Finite 0) then 1 else 0)) lift),
                pr_reject_null = reject,
                posterior_lift = lift\<rparr>)
             (serve [BetaRequest sa (ca - sa) n, BetaRequest sb (cb - sb) n] w)) = Inr res"
    using assms(6) unfolding analyze_experiment_unfold n_def k_def psa_def psb_def lift_def
    by simp
  from run obtain reject w' where
    "get_prob_reject_null pa pb ca cb sa sb psa psb
       (serve [BetaRequest sa (ca - sa) n, BetaRequest sb (cb - sb) n] w) = (Inr reject, w')"
    and "res = \<lparr>conversion_rate_a = real_of_int sa / real_of_int ca,
                conversion_rate_b = real_of_int sb / real_of_int cb,
                expected_lift = np_mean lift,
                pr_b_gt_a = np_mean (map (\<lambda>x. Finite (if f_ge x (Finite 0) then 1 else 0)) lift),
                pr_reject_null = reject,
                posterior_lift = lift\<rparr>"
    by (auto elim!: andthen_fst_Inr simp: returns_def)
  moreover have "get_posterior_samples ca cb sa sb w =
         (Inr [psa, psb], serve [BetaRequest sa (ca - sa) n, BetaRequest sb (cb - sb) n] w)"
    using ok by (simp add: get_posterior_samples_eq n_def k_def psa_def psb_def)
  ultimately show ?thesis using ok by auto
qed

lemma analyze_experiment_InrE:
  fixes w :: world and pa pb ca cb sa sb :: int
  assumes "fst (analyze_experiment pa pb ca cb sa sb w) = Inr res"
  obtains psa psb reject w' where
    "0 < sa" and "sa < ca" and "0 < sb" and "sb < cb" and "0 \<le> mc_samples (self w)"
    and "psa = map (beta_variate (rng w) (length (served (rng w))) sa (ca - sa))
                 [0..<nat (mc_samples (self w))]"
    and "psb = map (beta_variate (rng w) (Suc (length (served (rng w)))) sb (cb - sb))
                 [0..<nat (mc_samples (self w))]"
    and "get_posterior_samples ca cb sa sb w =
           (Inr [psa, psb], serve [BetaRequest sa (ca - sa) (mc_samples (self w)),
                                   BetaRequest sb (cb - sb) (mc_samples (self w))] w)"
    and "get_prob_reject_null pa pb ca cb sa sb psa psb
           (serve [BetaRequest sa (ca - sa) (mc_samples (self w)),
                   BetaRequest sb (cb - sb) (mc_samples (self w))] w) = (Inr reject, w')"
    and "conversion_rate_a res = real_of_int sa / real_of_int ca"
    and "conversion_rate_b res = real_of_int sb / real_of_int cb"
    and "posterior_lift res = map2 (\<lambda>b a. np_divide (b - a) a) psb psa"
    and "expected_lift res = np_mean (posterior_lift res)"
    and "pr_b_gt_a res =
           np_mean (map (\<lambda>x. Finite (if f_ge x (Finite 0) then 1 else 0)) (posterior_lift res))"
    and "pr_reject_null res = reject"
proof -
  let ?psa = "map (beta_variate (rng w) (length (served (rng w))) sa (ca - sa))
                 [0..<nat (mc_samples (self w))]"
  let ?psb = "map (beta_variate (rng w) (Suc (length (served (rng w)))) sb (cb - sb))
                 [0..<nat (mc_samples (self w))]"
  from analyze_experiment_Inr [OF assms] obtain reject w' where
    "get_prob_reject_null pa pb ca cb sa sb ?psa ?psb
           (serve [BetaRequest sa (ca - sa) (mc_samples (self w)),
                   BetaRequest sb (cb - sb) (mc_samples (self w))] w) = (Inr reject, w')"
    and "res = \<lparr>conversion_rate_a = real_of_int sa / real_of_int ca,
                conversion_rate_b = real_of_int sb / real_of_int cb,
                expected_lift = np_mean (map2 (\<lambda>b a. np_divide (b - a) a) ?psb ?psa),
                pr_b_gt_a = np_mean (map (\<lambda>x. Finite (if f_ge x (Finite 0) then 1 else 0))
                               (map2 (\<lambda>b a. np_divide (b - a) a) ?psb ?psa)),
                pr_reject_null = reject,
                posterior_lift = map2 (\<lambda>b a. np_divide (b - a) a) ?psb ?psa\<rparr>"
    by blast
  with analyze_experiment_Inr [OF assms] show thesis
    by (intro that [of ?psa ?psb reject w']) simp_all
qed

lemma get_prob_reject_null_value:
  assumes "1 \<le> mc_samples (self w)" and "0 \<le> alpha (self w)" "alpha (self w) \<le> 2"
    and "np_random_ok (rng w)"
    and "valid_observation pa ca sa" and "valid_observation pb cb sb"
    and "valid_samples (mc_samples (self w)) psa"
    and "valid_samples (mc_samples (self w)) psb"
  shows "fst (get_prob_reject_null pa pb ca cb sa sb psa psb w) =
     Inr (Finite (real (length (filter
        (\<lambda>i. step_mark (alpha (self w))
               (step_differences (rng w) (length (served (rng w)) + 2) pa pb
                  (final_successes (rng w) (length (served (rng w))) (pa - ca) psa sa (mc_samples (self w)))
                  (final_successes (rng w) (Suc (length (served (rng w)))) (pb - cb) psb sb (mc_samples (self w)))
                  (mc_samples (self w)) i))
        [0..<nat (mc_samples (self w))])) / real_of_int (mc_samples (self w))))"
  by (simp only: get_prob_reject_null_closed_form [OF assms] fst_conv)



lemma analyze_experiment_returns:
  assumes N: "1 \<le> mc_samples (self w)" and al: "0 \<le> alpha (self w)" "alpha (self w) \<le> 2"
    and ok: "np_random_ok (rng w)"
    and a: "0 < sa" "sa < ca" "ca \<le> pa"
    and b: "0 < sb" "sb < cb" "cb \<le> pb"
  shows "\<exists>res. fst (analyze_experiment pa pb ca cb sa sb w) = Inr res"
proof -
  let ?n = "mc_samples (self w)"
  let ?k = "length (served (rng w))"
  let ?psa = "map (beta_variate (rng w) ?k sa (ca - sa)) [0..<nat ?n]"
  let ?psb = "map (beta_variate (rng w) (Suc ?k) sb (cb - sb)) [0..<nat ?n]"
  let ?w2 = "serve [BetaRequest sa (ca - sa) ?n, BetaRequest sb (cb - sb) ?n] w"
  have va: "valid_observation pa ca sa" and vb: "valid_observation pb cb sb"
    using a b by (simp_all add: valid_observation_def)
  have sa: "valid_samples (mc_samples (self ?w2)) ?psa"
    using ok a by (auto simp: valid_samples_def np_random_ok_def)
  have sb: "valid_samples (mc_samples (self ?w2)) ?psb"
    using ok b by (auto simp: valid_samples_def np_random_ok_def)
  have ok2: "np_random_ok (rng ?w2)"
    using ok by (simp add: np_random_ok_def)
  obtain r w3 where "get_prob_reject_null pa pb ca cb sa sb ?psa ?psb ?w2 = (Inr r, w3)"
    using get_prob_reject_null_closed_form [OF _ _ _ ok2 va vb sa sb] N al by simp
  then show ?thesis
    using a b N by (simp add: analyze_experiment_unfold andthen_def returns_def)
qed

section \<open>Special doubles in the lift\<close>

lemma is_finite_f_add [simp]: "is_finite (f_add a b) \<longleftrightarrow> is_finite a \<and> is_finite b"
  by (cases a; cases b) simp_all


lemma is_finite_f_div_count [simp]: "is_finite (f_div_count v n) \<longleftrightarrow> is_finite v"
  by (cases v) simp_all


lemma is_finite_np_divide [simp]: "is_finite (np_divide x y) \<longleftrightarrow> y \<noteq> 0"
  by (simp add: np_divide_def)




section \<open>The two concrete runs\<close>


lemma demo_mc_samples: "mc_samples (self demo_world) = 2"
  by (simp add: demo_world_def)

lemma demo_posterior:
  "get_posterior_samples 2 2 1 1 demo_world =
     (Inr [[1 / 4, 1 / 4], [1 / 2, 1 / 2]], serve [BetaRequest 1 1 2, BetaRequest 1 1 2] demo_world)"
  by (simp add: get_posterior_samples_eq demo_world_def upt_rec)

lemma demo_reject:
  "fst (get_prob_reject_null 4 4 2 2 1 1 [1 / 4, 1 / 4] [1 / 2, 1 / 2]
     (serve [BetaRequest 1 1 2, BetaRequest 1 1 2] demo_world)) = Inr (Finite (1 / 2))"
  using get_prob_reject_null_value
    [of "serve [BetaRequest 1 1 2, BetaRequest 1 1 2] demo_world" 4 2 1 4 2 1
        "[1 / 4, 1 / 4]" "[1 / 2, 1 / 2]"]
  by (simp add: demo_world_def np_random_ok_def valid_observation_def valid_samples_def
      step_differences_def inner_differences_def final_successes_def step_mark_def
      quantile_linear_def Let_def upt_rec serve_def)

lemma demo_run: "fst (analyze_experiment 4 4 2 2 1 1 demo_world) = Inr demo_result"
proof -
  obtain r w' where r: "get_prob_reject_null 4 4 2 2 1 1 [1 / 4, 1 / 4] [1 / 2, 1 / 2]
     (serve [BetaRequest 1 1 2, BetaRequest 1 1 2] demo_world) = (r, w')"
    by (cases "get_prob_reject_null 4 4 2 2 1 1 [1 / 4, 1 / 4] [1 / 2, 1 / 2]
     (serve [BetaRequest 1 1 2, BetaRequest 1 1 2] demo_world)") 
  with demo_reject have "r = Inr (Finite (1 / 2))" by simp
  with r show ?thesis
    unfolding analyze_experiment_def
    by (simp add: andthen_def demo_posterior py_truediv_def lift_result_def returns_def
        np_divide_def np_mean_def f_ge_def demo_result_def)
qed






section \<open>The predictive estimator\<close>



section \<open>The two parameterizations\<close>



section \<open>The decision rule\<close>

text \<open>
  C3. Writing \<open>p\<close> for \<^verbatim>\<open>exp_output[4]\<close> and \<open>q\<close> for \<^verbatim>\<open>exp_output[3]\<close>: the
  conclusion is "no difference will be found" exactly when \<open>p < 0.01\<close>; it is one of
  the two "superior" conclusions exactly when \<open>p > 0.99\<close>, "test is superior" exactly
  when moreover \<open>q > 0.5\<close> and "control is superior" otherwise; and it is "should not be
  terminated" in every other case, in particular at \<open>p = 0.01\<close> and at \<open>p = 0.99\<close>.
  The image follows the same split.
\<close>

theorem conclusion_classification:
  "(fst (conclusion r) =
       ''## Experiment can be terminated. No difference between experiment and control will be found.''
      \<longleftrightarrow> f_less (pr_reject_null r) (Finite 0.01)) \<and>
   (fst (conclusion r) \<in>
       {''## Experiment can be terminated. Test is superior to control.'',
        ''## Experiment can be terminated. Control is superior to test.''}
      \<longleftrightarrow> f_less (Finite 0.99) (pr_reject_null r)) \<and>
   (fst (conclusion r) = ''## Experiment can be terminated. Test is superior to control.''
      \<longleftrightarrow> f_less (Finite 0.99) (pr_reject_null r) \<and> f_less (Finite 0.5) (pr_b_gt_a r)) \<and>
   (fst (conclusion r) = ''## Experiment can be terminated. Control is superior to test.''
      \<longleftrightarrow> f_less (Finite 0.99) (pr_reject_null r) \<and> \<not> f_less (Finite 0.5) (pr_b_gt_a r)) \<and>
   (fst (conclusion r) = ''## Experiment should not be terminated.''
      \<longleftrightarrow> \<not> f_less (pr_reject_null r) (Finite 0.01) \<and> \<not> f_less (Finite 0.99) (pr_reject_null r)) \<and>
   (pr_reject_null r = Finite 0.01 \<or> pr_reject_null r = Finite 0.99
      \<longrightarrow> fst (conclusion r) = ''## Experiment should not be terminated.'') \<and>
   (snd (conclusion r) = ''images/terminator_okay.gif''
      \<longleftrightarrow> f_less (pr_reject_null r) (Finite 0.01) \<or> f_less (Finite 0.99) (pr_reject_null r)) \<and>
   (snd (conclusion r) = ''images/thou_shalt_not_terminate.jpeg''
      \<longleftrightarrow> \<not> f_less (pr_reject_null r) (Finite 0.01) \<and> \<not> f_less (Finite 0.99) (pr_reject_null r))"
proof (cases "pr_reject_null r")
  case (Finite p)
  then show ?thesis
    by (cases "pr_b_gt_a r") (auto simp: conclusion_def)
next
  case PosInf
  then show ?thesis
    by (cases "pr_b_gt_a r") (auto simp: conclusion_def)
next
  case NegInf
  then show ?thesis
    by (cases "pr_b_gt_a r") (auto simp: conclusion_def)
next
  case NaN
  then show ?thesis
    by (cases "pr_b_gt_a r") (auto simp: conclusion_def)
qed

theorem conclusion_classification_witness:
  "fst (conclusion \<lparr>conversion_rate_a = 1 / 4, conversion_rate_b = 1 / 2,
          expected_lift = Finite 1, pr_b_gt_a = Finite 1, pr_reject_null = Finite 0.99,
          posterior_lift = [Finite 1, Finite 1]\<rparr>) = ''## Experiment should not be terminated.''
   \<and> fst (conclusion \<lparr>conversion_rate_a = 1 / 4, conversion_rate_b = 1 / 2,
          expected_lift = Finite 1, pr_b_gt_a = Finite 1, pr_reject_null = Finite 0.995,
          posterior_lift = [Finite 1, Finite 1]\<rparr>)
        = ''## Experiment can be terminated. Test is superior to control.''"
  using conclusion_classification [of "\<lparr>conversion_rate_a = 1 / 4, conversion_rate_b = 1 / 2,
          expected_lift = Finite 1, pr_b_gt_a = Finite 1, pr_reject_null = Finite 0.99,
          posterior_lift = [Finite 1, Finite 1]\<rparr>"]
    conclusion_classification [of "\<lparr>conversion_rate_a = 1 / 4, conversion_rate_b = 1 / 2,
          expected_lift = Finite 1, pr_b_gt_a = Finite 1, pr_reject_null = Finite 0.995,
          posterior_lift = [Finite 1, Finite 1]\<rparr>"]
  by simp

section \<open>The lift\<close>



section \<open>No remaining trials\<close>



section \<open>A zero control draw\<close>




section \<open>Degenerate observations\<close>

text \<open>
  C7. When a shape of either arm is not positive (\<open>successes \<le> 0\<close> or
  \<open>successes \<ge> completed\<close>), \<^verbatim>\<open>get_posterior_samples\<close> raises ValueError, the
  error of \<^verbatim>\<open>np.random.beta\<close>, and returns no samples; so does
  \<^verbatim>\<open>analyze_experiment\<close>.
\<close>

theorem get_posterior_samples_degenerate:
  assumes "successes_a \<le> 0 \<or> completed_a - successes_a \<le> 0
         \<or> successes_b \<le> 0 \<or> completed_b - successes_b \<le> 0"
  shows "fst (get_posterior_samples completed_a completed_b successes_a successes_b w) = Inl ValueError
       \<and> fst (analyze_experiment planned_a planned_b completed_a completed_b
                successes_a successes_b w) = Inl ValueError"
  using assms by (auto simp: get_posterior_samples_eq analyze_experiment_unfold)

theorem get_posterior_samples_degenerate_witness:
  "fst (get_posterior_samples 2 2 0 1 demo_world) = Inl ValueError
   \<and> fst (get_posterior_samples 2 2 1 2 demo_world) = Inl ValueError"
  using get_posterior_samples_degenerate [of 0 2 1 2 demo_world 4 4]
    get_posterior_samples_degenerate [of 1 2 2 2 demo_world 4 4]
  by simp

section \<open>Probabilities and rates\<close>

text \<open>
  C8. Whenever \<^verbatim>\<open>analyze_experiment\<close> returns, with \<open>mc_samples \<ge> 1\<close>, both
  \<^verbatim>\<open>pr_b_gt_a\<close> and \<^verbatim>\<open>pr_reject_null\<close> are finite numbers in \<open>[0, 1]\<close>; and it
  does return for observations with \<open>0 < successes < completed \<le> planned\<close> in both
  arms.
\<close>

theorem probabilities_in_unit_interval:
  assumes "1 \<le> mc_samples (self w)"
  shows "(\<forall>res. fst (analyze_experiment planned_a planned_b completed_a completed_b
                  successes_a successes_b w) = Inr res \<longrightarrow>
            (\<exists>q p. pr_b_gt_a res = Finite q \<and> 0 \<le> q \<and> q \<le> 1
                  \<and> pr_reject_null res = Finite p \<and> 0 \<le> p \<and> p \<le> 1))
       \<and> (0 \<le> alpha (self w) \<and> alpha (self w) \<le> 2 \<and> np_random_ok (rng w)
            \<and> 0 < successes_a \<and> successes_a < completed_a \<and> completed_a \<le> planned_a
            \<and> 0 < successes_b \<and> successes_b < completed_b \<and> completed_b \<le> planned_b
          \<longrightarrow> (\<exists>res. fst (analyze_experiment planned_a planned_b completed_a completed_b
                  successes_a successes_b w) = Inr res))"
proof (intro conjI allI impI)
  show "\<exists>res. fst (analyze_experiment planned_a planned_b completed_a completed_b
                  successes_a successes_b w) = Inr res"
    if "0 \<le> alpha (self w) \<and> alpha (self w) \<le> 2 \<and> np_random_ok (rng w)
            \<and> 0 < successes_a \<and> successes_a < completed_a \<and> completed_a \<le> planned_a
            \<and> 0 < successes_b \<and> successes_b < completed_b \<and> completed_b \<le> planned_b"
    using that assms by (intro analyze_experiment_returns) simp_all
next
  fix res
  assume run: "fst (analyze_experiment planned_a planned_b completed_a completed_b
                  successes_a successes_b w) = Inr res"
  let ?n = "mc_samples (self w)"
  let ?w2 = "serve [BetaRequest successes_a (completed_a - successes_a) ?n,
                    BetaRequest successes_b (completed_b - successes_b) ?n] w"
  from run obtain psa psb reject w3 where
    lift: "posterior_lift res = map2 (\<lambda>b a. np_divide (b - a) a) psb psa"
    and psa: "psa = map (beta_variate (rng w) (length (served (rng w))) successes_a
                 (completed_a - successes_a)) [0..<nat ?n]"
    and psb: "psb = map (beta_variate (rng w) (Suc (length (served (rng w)))) successes_b
                 (completed_b - successes_b)) [0..<nat ?n]"
    and beats: "pr_b_gt_a res =
       np_mean (map (\<lambda>x. Finite (if f_ge x (Finite 0) then 1 else 0)) (posterior_lift res))"
    and rej: "pr_reject_null res = reject"
    and run: "get_prob_reject_null planned_a planned_b completed_a completed_b
                successes_a successes_b psa psb ?w2 = (Inr reject, w3)"
    by (rule analyze_experiment_InrE)
  define lift where "lift = posterior_lift res"
  have len: "length lift = nat ?n"
    unfolding lift_def lift psa psb by simp
  note beats = beats [folded lift_def]
  have "unit_marks (nat ?n) (map (\<lambda>x. if f_ge x (Finite 0) then 1 else 0) lift)"
    using len by (auto simp: unit_marks_def)
  moreover have pos: "0 < nat ?n" using assms(1) by arith
  ultimately have "\<exists>q. np_mean (map Finite (map (\<lambda>x. if f_ge x (Finite 0) then 1 else 0) lift))
      = Finite q \<and> 0 \<le> q \<and> q \<le> 1"
    by (rule np_mean_unit_marks)
  then have "\<exists>q. pr_b_gt_a res = Finite q \<and> 0 \<le> q \<and> q \<le> 1"
    unfolding beats by (simp add: comp_def)
  moreover have "\<exists>p. reject = Finite p \<and> 0 \<le> p \<and> p \<le> 1"
    using get_prob_reject_null_range [OF run] assms(1) by simp
  ultimately show "\<exists>q p. pr_b_gt_a res = Finite q \<and> 0 \<le> q \<and> q \<le> 1
                  \<and> pr_reject_null res = Finite p \<and> 0 \<le> p \<and> p \<le> 1"
    using rej by auto
qed

theorem probabilities_in_unit_interval_witness:
  "1 \<le> mc_samples (self demo_world)
   \<and> fst (analyze_experiment 4 4 2 2 1 1 demo_world) = Inr demo_result
   \<and> pr_b_gt_a demo_result = Finite 1 \<and> (0::real) \<le> 1
   \<and> pr_reject_null demo_result = Finite (1 / 2) \<and> (0::real) \<le> 1 / 2 \<and> (1::real) / 2 \<le> 1"
  using probabilities_in_unit_interval
    [where w = demo_world and planned_a = 4 and planned_b = 4 and completed_a = 2
       and completed_b = 2 and successes_a = 1 and successes_b = 1]
  by (simp add: demo_run demo_mc_samples) (simp add: demo_result_def)



section \<open>The configuration\<close>

text \<open>
  C10. No method changes \<^verbatim>\<open>mc_samples\<close> or \<^verbatim>\<open>alpha\<close>, whether it returns or
  raises; after an analysis on a freshly constructed object they are still 5000 and
  0.05. Every request the generator answers during an analysis has size
  \<open>mc_samples\<close>, an answered Beta request has as many samples as its size, and the
  two posterior sample sets and the lift sample set have \<open>mc_samples\<close> elements.
\<close>

theorem configuration_unchanged:
  "self (snd (analyze_experiment planned_a planned_b completed_a completed_b
               successes_a successes_b w)) = self w
   \<and> self (snd (get_posterior_samples completed_a completed_b successes_a successes_b w)) = self w
   \<and> self (snd (get_prob_reject_null planned_a planned_b completed_a completed_b
                  successes_a successes_b posterior_a posterior_b w)) = self w
   \<and> (self w = init \<longrightarrow>
        mc_samples (self (snd (analyze_experiment planned_a planned_b completed_a completed_b
               successes_a successes_b w))) = 5000
        \<and> alpha (self (snd (analyze_experiment planned_a planned_b completed_a completed_b
               successes_a successes_b w))) = 0.05)
   \<and> (\<exists>rs. served (rng (snd (analyze_experiment planned_a planned_b completed_a completed_b
                              successes_a successes_b w))) = served (rng w) @ rs
          \<and> (\<forall>r \<in> set rs. request_size r = mc_samples (self w)))
   \<and> (\<forall>a b sz xs. fst (np_random_beta a b sz w) = Inr xs \<longrightarrow> length xs = nat sz)
   \<and> (\<forall>res. fst (analyze_experiment planned_a planned_b completed_a completed_b
                    successes_a successes_b w) = Inr res \<longrightarrow>
          length (posterior_lift res) = nat (mc_samples (self w))
          \<and> (\<exists>control test.
                fst (get_posterior_samples completed_a completed_b successes_a successes_b w)
                  = Inr [control, test]
                \<and> length control = nat (mc_samples (self w))
                \<and> length test = nat (mc_samples (self w))))"
proof -
  have a: "self (snd (analyze_experiment planned_a planned_b completed_a completed_b
               successes_a successes_b w)) = self w"
    by (rule only_serves_self [OF only_serves_analyze_experiment])
  have b: "self (snd (get_posterior_samples completed_a completed_b successes_a successes_b w)) = self w"
    by (rule only_serves_self [OF only_serves_get_posterior_samples])
  have c: "self (snd (get_prob_reject_null planned_a planned_b completed_a completed_b
                  successes_a successes_b posterior_a posterior_b w)) = self w"
    by (rule only_serves_self [OF only_serves_get_prob_reject_null])
  have d: "\<exists>rs. served (rng (snd (analyze_experiment planned_a planned_b completed_a completed_b
                              successes_a successes_b w))) = served (rng w) @ rs
          \<and> (\<forall>r \<in> set rs. request_size r = mc_samples (self w))"
    by (rule only_serves_served [OF only_serves_analyze_experiment])
  have e: "length (posterior_lift res) = nat (mc_samples (self w))
          \<and> (\<exists>control test.
                fst (get_posterior_samples completed_a completed_b successes_a successes_b w)
                  = Inr [control, test]
                \<and> length control = nat (mc_samples (self w))
                \<and> length test = nat (mc_samples (self w)))"
    if "fst (analyze_experiment planned_a planned_b completed_a completed_b
                    successes_a successes_b w) = Inr res" for res
  proof -
    from that obtain psa psb where
      psa: "psa = map (beta_variate (rng w) (length (served (rng w))) successes_a
                 (completed_a - successes_a)) [0..<nat (mc_samples (self w))]"
      and psb: "psb = map (beta_variate (rng w) (Suc (length (served (rng w)))) successes_b
                 (completed_b - successes_b)) [0..<nat (mc_samples (self w))]"
      and post: "get_posterior_samples completed_a completed_b successes_a successes_b w =
           (Inr [psa, psb], serve [BetaRequest successes_a (completed_a - successes_a) (mc_samples (self w)),
                                   BetaRequest successes_b (completed_b - successes_b) (mc_samples (self w))] w)"
      and lift: "posterior_lift res = map2 (\<lambda>b a. np_divide (b - a) a) psb psa"
      by (rule analyze_experiment_InrE)
    have "length psa = nat (mc_samples (self w))" "length psb = nat (mc_samples (self w))"
      by (simp_all add: psa psb)
    then show ?thesis using post lift by simp
  qed
  show ?thesis
    using a b c d e np_random_beta_length by (simp add: init_def)
qed

theorem configuration_unchanged_witness:
  "mc_samples (self (snd (analyze_experiment 4 4 2 2 1 1 (demo_world\<lparr>self := init\<rparr>)))) = 5000
   \<and> alpha (self (snd (analyze_experiment 4 4 2 2 1 1 (demo_world\<lparr>self := init\<rparr>)))) = 0.05
   \<and> fst (analyze_experiment 4 4 2 2 1 1 demo_world) = Inr demo_result
   \<and> length (posterior_lift demo_result) = 2
   \<and> self (snd (analyze_experiment 4 4 2 2 1 1 demo_world)) = \<lparr>mc_samples = 2, alpha = 0.05\<rparr>"
  using configuration_unchanged [of 4 4 2 2 1 1 "demo_world\<lparr>self := init\<rparr>"]
    configuration_unchanged [of 4 4 2 2 1 1 demo_world]
  by (simp add: demo_run) (simp add: demo_world_def demo_result_def init_def)

end
